theory Spec2Isabelle
  imports Main "HOL-Library.Char_ord" "HOL-Library.List_Lexorder"
begin

section \<open>Inventory management backend (\<open>backend/main.py\<close>)\<close>

text \<open>
  The backend keeps two CSV tables, \<open>inventory.csv\<close> and \<open>sales_history.csv\<close>, and
  serves operations that read a whole table, change it in memory and write it back.
  The model below follows \<open>main.py\<close> function by function.

  \<^item> A Python \<open>str\<close> is a \<open>string\<close>; a character stands for a code point below 256.
  \<^item> A Python \<open>int\<close> is an \<open>int\<close>. The interpreter's limit on the number of digits
    of an integer literal (4300 by default) is not modelled.
  \<^item> A Python \<open>float\<close> is a value of a type parameter \<open>'f\<close>; the float operations the
    code uses are the fields of a record \<open>float_ops\<close> that every operation takes as its
    first argument. Nothing is assumed about them.
  \<^item> An exception is a value of type \<open>error\<close>: \<open>HTTPException\<close> with its status code
    and detail, or the exception a builtin raises and no handler catches. An operation
    returns \<open>error + response\<close> together with the tables as they are on disk when it
    returns or raises.
  \<^item> A table is the list of its rows, every row with one string per column, as
    \<open>csv.DictReader\<close> loads it. Both files exist, as the module creates them when it
    is loaded.
  \<^item> A request body is a JSON object, the list of its members with distinct keys, whose
    values are scalars (string, integer, float, boolean, null).
  \<^item> The date of a sale, \<open>datetime.date.today().isoformat()\<close>, is an argument.
\<close>

subsection \<open>Python strings and integers\<close>

definition is_space :: "char \<Rightarrow> bool" where
  \<comment> \<open>\<open>str.isspace\<close> on code points below 256\<close>
  "is_space c = (of_char c \<in> {9, 10, 11, 12, 13, 28, 29, 30, 31, 32, 133, 160 :: nat})"

definition strip :: "string \<Rightarrow> string" where
  \<comment> \<open>\<open>s.strip()\<close>\<close>
  "strip s = rev (dropWhile is_space (rev (dropWhile is_space s)))"

definition is_int_space :: "char \<Rightarrow> bool" where
  \<comment> \<open>the white space \<open>int(s)\<close> and \<open>float(s)\<close> skip at both ends of \<open>s\<close>: not the
      separators 28 to 31, which \<open>str.isspace\<close> accepts\<close>
  "is_int_space c = (of_char c \<in> {9, 10, 11, 12, 13, 32, 133, 160 :: nat})"

definition int_strip :: "string \<Rightarrow> string" where
  "int_strip s = rev (dropWhile is_int_space (rev (dropWhile is_int_space s)))"

definition is_digit :: "char \<Rightarrow> bool" where
  "is_digit c = (c \<in> set ''0123456789'')"

definition digit_value :: "char \<Rightarrow> nat" where
  "digit_value c = of_char c - 48"

definition digits_value :: "string \<Rightarrow> nat" where
  "digits_value s = foldl (\<lambda>a c. 10 * a + digit_value c) 0 s"

text \<open>The digit part of an integer literal: digits, with single underscores between digits.\<close>

fun valid_digits :: "string \<Rightarrow> bool" where
  "valid_digits [] = False"
| "valid_digits [c] = is_digit c"
| "valid_digits (c # d # cs) =
     (is_digit c \<and> (if d = CHR ''_'' then valid_digits cs else valid_digits (d # cs)))"

definition int_of_str :: "string \<Rightarrow> int option" where
  \<comment> \<open>\<open>int(s)\<close> for a string \<open>s\<close>; \<open>None\<close> stands for \<open>ValueError\<close>\<close>
  "int_of_str s =
     (let t = int_strip s;
          neg = (case t of c # _ \<Rightarrow> c = CHR ''-'' | [] \<Rightarrow> False);
          body = (case t of c # r \<Rightarrow> if c = CHR ''-'' \<or> c = CHR ''+'' then r else t | [] \<Rightarrow> t)
      in if valid_digits body
         then Some ((if neg then - 1 else 1) * int (digits_value (filter (\<lambda>c. c \<noteq> CHR ''_'') body)))
         else None)"

definition digit_char :: "nat \<Rightarrow> char" where
  "digit_char d = ''0123456789'' ! d"

fun nat_digits :: "nat \<Rightarrow> string" where
  "nat_digits n = (if n < 10 then [digit_char n] else nat_digits (n div 10) @ [digit_char (n mod 10)])"

declare nat_digits.simps [simp del]

definition str_of_int :: "int \<Rightarrow> string" where
  \<comment> \<open>\<open>str(n)\<close> for an integer \<open>n\<close>\<close>
  "str_of_int n = (if n < 0 then CHR ''-'' # nat_digits (nat (- n)) else nat_digits (nat n))"

definition format_03 :: "int \<Rightarrow> string" where
  \<comment> \<open>\<open>f"{n:03}"\<close>: sign first, then zeros up to a total width of 3, then the digits\<close>
  "format_03 n =
     (let sgn = (if n < 0 then ''-'' else '''');
          d = nat_digits (nat \<bar>n\<bar>)
      in sgn @ replicate (3 - length sgn - length d) CHR ''0'' @ d)"

definition startswith :: "string \<Rightarrow> string \<Rightarrow> bool" where
  "startswith s p = (take (length p) s = p)"

definition remove_dollar :: "string \<Rightarrow> string" where
  \<comment> \<open>\<open>s.replace("$", "")\<close>\<close>
  "remove_dollar s = filter (\<lambda>c. c \<noteq> CHR ''$'') s"

fun universal_newlines :: "string \<Rightarrow> string" where
  \<comment> \<open>a text as it is read back from a file opened in text mode: a carriage return, alone
      or before a line feed, is a line feed\<close>
  "universal_newlines [] = []"
| "universal_newlines [c] = [if c = CHR 0x0D then CHR 0x0A else c]"
| "universal_newlines (c # d # cs) =
     (if c = CHR 0x0D
      then (if d = CHR 0x0A then CHR 0x0A # universal_newlines cs
            else CHR 0x0A # universal_newlines (d # cs))
      else c # universal_newlines (d # cs))"




fun max_default :: "int list \<Rightarrow> int \<Rightarrow> int" where
  \<comment> \<open>\<open>max(xs, default=d)\<close>\<close>
  "max_default [] d = d"
| "max_default (x # xs) d = fold max xs x"

subsection \<open>Exceptions, floats and JSON values\<close>

datatype error =
    HTTPException nat string
  | ValueError
  | TypeError
  | KeyError
  | OverflowError
  | AttributeError

record 'f float_ops =
  float_of_str :: "string \<Rightarrow> 'f option"   \<comment> \<open>\<open>float(s)\<close>; \<open>None\<close> stands for \<open>ValueError\<close>\<close>
  float_of_int :: "int \<Rightarrow> 'f option"      \<comment> \<open>int to float; \<open>None\<close> stands for \<open>OverflowError\<close>\<close>
  float_mul :: "'f \<Rightarrow> 'f \<Rightarrow> 'f"
  float_sub :: "'f \<Rightarrow> 'f \<Rightarrow> 'f"
  round2 :: "'f \<Rightarrow> 'f"                      \<comment> \<open>\<open>round(x, 2)\<close>\<close>
  float_str :: "'f \<Rightarrow> string"               \<comment> \<open>\<open>str(x)\<close>, also what \<open>csv\<close> writes\<close>
  int_of_float :: "'f \<Rightarrow> error + int"       \<comment> \<open>\<open>int(x)\<close>\<close>

datatype 'f jval = JStr string | JInt int | JFloat 'f | JBool bool | JNull

type_synonym 'f dict = "(string \<times> 'f jval) list"

definition int_times_float :: "'f float_ops \<Rightarrow> int \<Rightarrow> 'f \<Rightarrow> error + 'f" where
  \<comment> \<open>\<open>n * x\<close> with an integer on the left: the integer is converted first\<close>
  "int_times_float F n x =
     (case float_of_int F n of None \<Rightarrow> Inl OverflowError | Some y \<Rightarrow> Inr (float_mul F y x))"

fun py_str :: "'f float_ops \<Rightarrow> 'f jval \<Rightarrow> string" where
  "py_str F (JStr s) = s"
| "py_str F (JInt n) = str_of_int n"
| "py_str F (JFloat x) = float_str F x"
| "py_str F (JBool b) = (if b then ''True'' else ''False'')"
| "py_str F JNull = ''None''"

fun py_int :: "'f float_ops \<Rightarrow> 'f jval \<Rightarrow> error + int" where
  "py_int F (JStr s) = (case int_of_str s of None \<Rightarrow> Inl ValueError | Some n \<Rightarrow> Inr n)"
| "py_int F (JInt n) = Inr n"
| "py_int F (JFloat x) = int_of_float F x"
| "py_int F (JBool b) = Inr (if b then 1 else 0)"
| "py_int F JNull = Inl TypeError"

fun csv_field :: "'f float_ops \<Rightarrow> 'f jval \<Rightarrow> string" where
  \<comment> \<open>what \<open>csv.writer\<close> writes for a value: \<open>None\<close> as the empty string, the rest as \<open>str\<close>\<close>
  "csv_field F JNull = ''''"
| "csv_field F v = py_str F v"

subsection \<open>The two tables\<close>

record row =
  id_f :: string
  name :: string
  quantity :: string
  price :: string
  total_investment :: string
  sold :: string

record sale =
  date :: string
  item_id :: string
  item_name :: string
  sold_quantity :: string
  amount :: string

record state =
  inventory_csv :: "row list"         \<comment> \<open>the rows of \<open>DATA_FILE\<close>\<close>
  sales_history_csv :: "sale list"    \<comment> \<open>the rows of \<open>SALES_FILE\<close>\<close>

type_synonym response = "(string \<times> string) list"

definition fieldnames :: "string list" where
  "fieldnames = [''id'', ''name'', ''quantity'', ''price'', ''total_investment'', ''sold'']"

text \<open>
  A state holds each table as the program loads it. \<open>write_items\<close> opens the file with
  \<open>newline=""\<close> and \<open>read_items\<close> opens it in text mode, so a field comes back with
  every carriage return, alone or before a line feed, turned into a line feed, and
  otherwise as it was written. A loaded row has no carriage return and is written back
  as it is; the texts that a request brings into a row, in \<open>add_item\<close> and
  \<open>update_item\<close>, are put into the row through \<open>universal_newlines\<close>, as the next
  \<open>read_items\<close> returns them. The text of an integer has no carriage return, and that
  of a float is taken to have none.
\<close>

definition read_items :: "state \<Rightarrow> row list" where
  "read_items st = inventory_csv st"

definition write_items :: "row list \<Rightarrow> state \<Rightarrow> state" where
  "write_items items st = st\<lparr>inventory_csv := items\<rparr>"

definition add_sale_record ::
  "'f float_ops \<Rightarrow> string \<Rightarrow> string \<Rightarrow> string \<Rightarrow> int \<Rightarrow> 'f \<Rightarrow> state \<Rightarrow> state" where
  \<comment> \<open>the first string is \<open>datetime.date.today().isoformat()\<close>\<close>
  "add_sale_record F today iid nm qty amt st =
     st\<lparr>sales_history_csv := sales_history_csv st @
          [\<lparr>date = today, item_id = iid, item_name = nm,
            sold_quantity = str_of_int qty, amount = float_str F (round2 F amt)\<rparr>]\<rparr>"

subsection \<open>Listing and searching\<close>

definition get_items :: "state \<Rightarrow> row list \<times> state" where
  "get_items st = (read_items st, st)"


subsection \<open>Add\<close>

definition next_id :: "row list \<Rightarrow> error + string" where
  "next_id items =
     (if items = [] then Inr ''001''
      else case those (map (\<lambda>i. int_of_str (id_f i)) items) of
             None \<Rightarrow> Inl ValueError
           | Some ns \<Rightarrow> Inr (format_03 (max_default ns 0 + 1)))"

definition add_item :: "'f float_ops \<Rightarrow> 'f dict \<Rightarrow> state \<Rightarrow> (error + response) \<times> state" where
  "add_item F item st =
     (case map_of item ''quantity'' of
        None \<Rightarrow> (Inl KeyError, st)
      | Some q \<Rightarrow>
     (case py_int F q of
        Inl e \<Rightarrow> (Inl e, st)
      | Inr quantity_num \<Rightarrow>
     if quantity_num < 10 then (Inl (HTTPException 400 ''Quantity must be 10 or more''), st)
     else
     (case map_of item ''price'' of
        None \<Rightarrow> (Inl KeyError, st)
      | Some p \<Rightarrow>
     (case (if \<not> startswith (py_str F p) ''$'' then Inr (''$'' @ py_str F p)
            else (case p of JStr s \<Rightarrow> Inr s | _ \<Rightarrow> Inl AttributeError)) of
        Inl e \<Rightarrow> (Inl e, st)
      | Inr price_str \<Rightarrow>
     (case float_of_str F (remove_dollar price_str) of
        None \<Rightarrow> (Inl ValueError, st)
      | Some price_num \<Rightarrow>
     (case int_times_float F quantity_num price_num of
        Inl e \<Rightarrow> (Inl e, st)
      | Inr investment \<Rightarrow>
     (let items = read_items st in
      case next_id items of
        Inl e \<Rightarrow> (Inl e, st)
      | Inr nid \<Rightarrow>
          if \<exists>k \<in> set (map fst item). k \<notin> set fieldnames
          then (Inl ValueError, write_items items st)
          else (Inr [(''message'', ''Item added''), (''id'', nid)],
                write_items
                  (items @
                   [\<lparr>id_f = nid,
                     name = (case map_of item ''name'' of None \<Rightarrow> []
                             | Some v \<Rightarrow> universal_newlines (csv_field F v)),
                     quantity = universal_newlines (csv_field F q),
                     price = universal_newlines price_str,
                     total_investment = float_str F (round2 F investment),
                     sold = ''0''\<rparr>]) st))))))))"

subsection \<open>Update\<close>

definition as_stored :: "'f dict \<Rightarrow> string \<Rightarrow> string \<Rightarrow> string" where
  \<comment> \<open>the text of a field after an update, as the next \<open>read_items\<close> loads it: a text the
      request supplied has gone through the file, one it left out is the loaded one\<close>
  "as_stored item key text =
     (case map_of item key of None \<Rightarrow> text | Some v \<Rightarrow> universal_newlines text)"

fun update_loop :: "'f float_ops \<Rightarrow> string \<Rightarrow> 'f dict \<Rightarrow> row list \<Rightarrow> error + (bool \<times> row list)" where
  "update_loop F iid item [] = Inr (False, [])"
| "update_loop F iid item (i # rest) =
     (if id_f i = iid then
        (let i1 = i\<lparr>name := (case map_of item ''name'' of None \<Rightarrow> name i | Some v \<Rightarrow> csv_field F v)\<rparr>;
             i2 = i1\<lparr>quantity := (case map_of item ''quantity'' of None \<Rightarrow> quantity i1 | Some v \<Rightarrow> py_str F v)\<rparr>;
             price_str = (case map_of item ''price'' of None \<Rightarrow> price i2 | Some v \<Rightarrow> py_str F v);
             i3 = i2\<lparr>price := (if \<not> startswith price_str ''$'' then ''$'' @ price_str else price_str)\<rparr>
         in case float_of_str F (remove_dollar (price i3)) of
              None \<Rightarrow> Inl ValueError
            | Some price_num \<Rightarrow>
           (case int_of_str (quantity i3) of
              None \<Rightarrow> Inl ValueError
            | Some quantity_num \<Rightarrow>
           (case int_times_float F quantity_num price_num of
              Inl e \<Rightarrow> Inl e
            | Inr investment \<Rightarrow>
                Inr (True,
                     i3\<lparr>name := as_stored item ''name'' (name i3),
                        quantity := as_stored item ''quantity'' (quantity i3),
                        price := as_stored item ''price'' (price i3),
                        total_investment := float_str F (round2 F investment)\<rparr> # rest))))
      else (case update_loop F iid item rest of
              Inl e \<Rightarrow> Inl e
            | Inr (found, rest') \<Rightarrow> Inr (found, i # rest')))"

definition update_item :: "'f float_ops \<Rightarrow> string \<Rightarrow> 'f dict \<Rightarrow> state \<Rightarrow> (error + response) \<times> state" where
  "update_item F iid item st =
     (let items = read_items st in
      case update_loop F iid item items of
        Inl e \<Rightarrow> (Inl e, st)
      | Inr (found, items') \<Rightarrow>
          if \<not> found then (Inl (HTTPException 404 ''Item not found''), st)
          else (Inr [(''message'', ''Item updated'')], write_items items' st))"

subsection \<open>Delete\<close>

definition delete_item :: "string \<Rightarrow> state \<Rightarrow> (error + response) \<times> state" where
  "delete_item iid st =
     (let items = read_items st;
          new_items = filter (\<lambda>i. id_f i \<noteq> iid) items
      in if length new_items = length items then (Inl (HTTPException 404 ''Item not found''), st)
         else (Inr [(''message'', ''Item deleted'')], write_items new_items st))"

subsection \<open>Sell\<close>

fun sell_loop ::
  "'f float_ops \<Rightarrow> string \<Rightarrow> string \<Rightarrow> int \<Rightarrow> row list \<Rightarrow> state \<Rightarrow> (error + (bool \<times> row list)) \<times> state" where
  "sell_loop F today iid sold_qty [] st = (Inr (False, []), st)"
| "sell_loop F today iid sold_qty (item # rest) st =
     (if id_f item = iid then
        (case int_of_str (quantity item) of
           None \<Rightarrow> (Inl (HTTPException 500 ''Invalid inventory quantity''), st)
         | Some current_qty \<Rightarrow>
        if sold_qty > current_qty
        then (Inl (HTTPException 400 (''Not enough stock. Available: '' @ str_of_int current_qty)), st)
        else
        (case float_of_str F (remove_dollar (price item)) of
           None \<Rightarrow> (Inl (HTTPException 500 ''Invalid item price''), st)
         | Some price_per_unit \<Rightarrow>
        (let item1 = item\<lparr>quantity := str_of_int (current_qty - sold_qty)\<rparr> in
         case int_of_str (sold item1) of
           None \<Rightarrow> (Inl ValueError, st)
         | Some old_sold \<Rightarrow>
        (let item2 = item1\<lparr>sold := str_of_int (old_sold + sold_qty)\<rparr> in
         case float_of_str F (total_investment item2) of
           None \<Rightarrow> (Inl ValueError, st)
         | Some old_investment \<Rightarrow>
        (case int_times_float F sold_qty price_per_unit of
           Inl e \<Rightarrow> (Inl e, st)
         | Inr amt \<Rightarrow>
        (let item3 = item2\<lparr>total_investment :=
                             float_str F (round2 F (float_sub F old_investment amt))\<rparr> in
         case int_times_float F sold_qty price_per_unit of
           Inl e \<Rightarrow> (Inl e, st)
         | Inr amt' \<Rightarrow>
             (Inr (True, item3 # rest),
              add_sale_record F today iid (name item3) sold_qty amt' st)))))))
      else (case sell_loop F today iid sold_qty rest st of
              (Inl e, st') \<Rightarrow> (Inl e, st')
            | (Inr (found, rest'), st') \<Rightarrow> (Inr (found, item # rest'), st')))"

definition sell_item ::
  "'f float_ops \<Rightarrow> string \<Rightarrow> string \<Rightarrow> 'f dict \<Rightarrow> state \<Rightarrow> (error + response) \<times> state" where
  \<comment> \<open>the first string is today's date, the second the id in the path\<close>
  "sell_item F today iid data st =
     (case map_of data ''sold'' of
        None \<Rightarrow> (Inl (HTTPException 400 ''Sold quantity is required''), st)
      | Some v \<Rightarrow>
     if strip (py_str F v) = [] then (Inl (HTTPException 400 ''Sold quantity is required''), st)
     else
     (case py_int F v of
        Inl e \<Rightarrow>
          (if e = ValueError then (Inl (HTTPException 400 ''Sold quantity must be a valid integer''), st)
           else (Inl e, st))
      | Inr sold_qty \<Rightarrow>
     if sold_qty \<le> 0 then (Inl (HTTPException 400 ''Sold quantity must be a positive integer''), st)
     else
     (let items = read_items st in
      case sell_loop F today iid sold_qty items st of
        (Inl e, st') \<Rightarrow> (Inl e, st')
      | (Inr (found, items'), st') \<Rightarrow>
          if \<not> found then (Inl (HTTPException 404 ''Item not found''), st')
          else (Inr [(''message'', str_of_int sold_qty @ '' units sold'')], write_items items' st'))))"

subsection \<open>Sales history\<close>



subsection \<open>The errors by the names of the specification\<close>


definition RecordNotFound :: error where
  "RecordNotFound = HTTPException 404 ''Item not found''"

definition MissingQuantity :: error where
  "MissingQuantity = HTTPException 400 ''Sold quantity is required''"

definition InvalidQuantityFormat :: error where
  "InvalidQuantityFormat = HTTPException 400 ''Sold quantity must be a valid integer''"

definition NonPositiveQuantity :: error where
  "NonPositiveQuantity = HTTPException 400 ''Sold quantity must be a positive integer''"

definition InsufficientStock :: "int \<Rightarrow> error" where
  "InsufficientStock available = HTTPException 400 (''Not enough stock. Available: '' @ str_of_int available)"

definition CorruptQuantity :: error where
  "CorruptQuantity = HTTPException 500 ''Invalid inventory quantity''"

definition CorruptPrice :: error where
  "CorruptPrice = HTTPException 500 ''Invalid item price''"

subsection \<open>Sequences of operations\<close>

datatype 'f operation =
    Add "'f dict"
  | Update string "'f dict"
  | Delete string
  | Sell string string "'f dict"

fun exec_op :: "'f float_ops \<Rightarrow> 'f operation \<Rightarrow> state \<Rightarrow> state" where
  "exec_op F (Add item) st = snd (add_item F item st)"
| "exec_op F (Update iid item) st = snd (update_item F iid item st)"
| "exec_op F (Delete iid) st = snd (delete_item iid st)"
| "exec_op F (Sell today iid data) st = snd (sell_item F today iid data st)"

definition run :: "'f float_ops \<Rightarrow> 'f operation list \<Rightarrow> state \<Rightarrow> state" where
  "run F ops st = fold (exec_op F) ops st"

subsection \<open>Floats on whole numbers, for evaluation\<close>

text \<open>
  An interpretation of the float operations on whole numbers written in plain notation
  (\<open>12\<close>, \<open>-3\<close>, \<open>12.0\<close>). It agrees with Python where every value, given or
  computed, is a whole number of magnitude below \<open>10^16\<close> and is not the negative zero:
  Python has \<open>-0.0\<close> for the text \<open>-0\<close> and for the product of zero and a negative
  number, this interpretation has only one zero. There products and differences are
  exact and \<open>round(x, 2)\<close> returns \<open>x\<close>. It rejects every string that is not such a
  number, and it converts every integer, so it is used only on inputs whose numbers are
  positive whole numbers or are no numbers at all.
\<close>

definition whole_of_str :: "string \<Rightarrow> int option" where
  "whole_of_str s =
     (let t = int_strip s;
          u = (if 2 \<le> length t \<and> drop (length t - 2) t = ''.0'' then take (length t - 2) t else t)
      in if int_strip u = u then int_of_str u else None)"

definition whole_floats :: "int float_ops" where
  "whole_floats =
     \<lparr>float_of_str = whole_of_str,
      float_of_int = Some,
      float_mul = (*),
      float_sub = (-),
      round2 = (\<lambda>x. x),
      float_str = (\<lambda>x. str_of_int x @ ''.0''),
      int_of_float = Inr\<rparr>"

subsection \<open>Example tables\<close>

definition shop :: state where
  "shop =
     \<lparr>inventory_csv =
        [\<lparr>id_f = ''001'', name = ''widget'', quantity = ''10'', price = ''$2'',
          total_investment = ''20.0'', sold = ''0''\<rparr>],
      sales_history_csv = []\<rparr>"

definition shop_corrupt_price :: state where
  "shop_corrupt_price =
     \<lparr>inventory_csv =
        [\<lparr>id_f = ''001'', name = ''widget'', quantity = ''10'', price = ''$abc'',
          total_investment = ''20.0'', sold = ''0''\<rparr>],
      sales_history_csv = []\<rparr>"

definition shop_duplicates :: state where
  "shop_duplicates =
     \<lparr>inventory_csv =
        [\<lparr>id_f = ''001'', name = ''widget'', quantity = ''10'', price = ''$2'',
          total_investment = ''20.0'', sold = ''0''\<rparr>,
         \<lparr>id_f = ''001'', name = ''gadget'', quantity = ''5'', price = ''$3'',
          total_investment = ''15.0'', sold = ''0''\<rparr>,
         \<lparr>id_f = ''002'', name = ''bolt'', quantity = ''50'', price = ''$1'',
          total_investment = ''50.0'', sold = ''0''\<rparr>],
      sales_history_csv = []\<rparr>"

definition shop_gap :: state where
  "shop_gap =
     \<lparr>inventory_csv =
        [\<lparr>id_f = ''001'', name = ''widget'', quantity = ''10'', price = ''$2'',
          total_investment = ''20.0'', sold = ''0''\<rparr>,
         \<lparr>id_f = ''002'', name = ''gadget'', quantity = ''5'', price = ''$3'',
          total_investment = ''15.0'', sold = ''0''\<rparr>,
         \<lparr>id_f = ''005'', name = ''bolt'', quantity = ''50'', price = ''$1'',
          total_investment = ''50.0'', sold = ''0''\<rparr>],
      sales_history_csv = []\<rparr>"

definition empty_shop :: state where
  "empty_shop = \<lparr>inventory_csv = [], sales_history_csv = []\<rparr>"

subsection \<open>The total sold on a date\<close>




subsection \<open>The sold counters of a store\<close>

definition sold_ok :: "state \<Rightarrow> bool" where
  \<comment> \<open>every sold field is the text of a non-negative integer\<close>
  "sold_ok st =
     (\<forall>r \<in> set (inventory_csv st). case int_of_str (sold r) of None \<Rightarrow> False | Some n \<Rightarrow> 0 \<le> n)"

definition nut_request :: "int dict" where
  "nut_request = [(''name'', JStr ''nut''), (''quantity'', JInt 12), (''price'', JStr ''$4'')]"

definition nut_shop :: state where
  \<comment> \<open>the empty store after adding \<open>nut_request\<close>\<close>
  "nut_shop =
     \<lparr>inventory_csv =
        [\<lparr>id_f = ''001'', name = ''nut'', quantity = ''12'', price = ''$4'',
          total_investment = ''48.0'', sold = ''0''\<rparr>],
      sales_history_csv = []\<rparr>"

definition nut_history :: "int operation list" where
  "nut_history =
     [Add nut_request,
      Sell ''2024-05-01'' ''001'' [(''sold'', JInt 3)],
      Update ''001'' [(''quantity'', JInt 20)],
      Sell ''2024-05-02'' ''001'' [(''sold'', JStr ''5'')],
      Delete ''002'']"

section \<open>Facts about the string and integer functions\<close>

lemma lt10_cases: "d < 10 \<Longrightarrow> d \<in> {0, 1, 2, 3, 4, 5, 6, 7, 8, 9 :: nat}"
  by auto

lemma digit_char_props:
  assumes "d < 10"
  shows "is_digit (digit_char d)" and "digit_value (digit_char d) = d"
    and "\<not> is_int_space (digit_char d)" and "digit_char d \<noteq> CHR ''_''"
    and "digit_char d \<noteq> CHR ''-''" and "digit_char d \<noteq> CHR ''+''"
  using lt10_cases [OF assms]
  by (auto simp: is_digit_def digit_char_def digit_value_def is_int_space_def)

lemma nat_digits_all: "c \<in> set (nat_digits n) \<Longrightarrow> \<exists>d<10. c = digit_char d"
proof (induction n rule: nat_digits.induct)
  case (1 n)
  show ?case
  proof (cases "n < 10")
    case True
    with "1.prems" show ?thesis by (auto simp: nat_digits.simps [of n])
  next
    case False
    with "1.prems" have "c \<in> set (nat_digits (n div 10)) \<or> c = digit_char (n mod 10)"
      by (auto simp: nat_digits.simps [of n])
    then show ?thesis
    proof
      assume "c \<in> set (nat_digits (n div 10))"
      with False "1.IH" show ?thesis by simp
    next
      assume "c = digit_char (n mod 10)"
      moreover have "n mod 10 < 10" by simp
      ultimately show ?thesis by blast
    qed
  qed
qed

lemma nat_digits_nonempty: "nat_digits n \<noteq> []"
  by (subst nat_digits.simps) simp

lemma digits_value_nat_digits: "digits_value (nat_digits n) = n"
proof (induction n rule: nat_digits.induct)
  case (1 n)
  show ?case
  proof (cases "n < 10")
    case True
    then show ?thesis
      by (simp add: nat_digits.simps [of n] digits_value_def digit_char_props)
  next
    case False
    with "1.IH" have "digits_value (nat_digits (n div 10)) = n div 10" by simp
    with False show ?thesis
      by (simp add: nat_digits.simps [of n] digits_value_def digit_char_props)
  qed
qed

lemma valid_digits_all: "s \<noteq> [] \<Longrightarrow> \<forall>c \<in> set s. is_digit c \<Longrightarrow> valid_digits s"
proof (induction s rule: valid_digits.induct)
  case (3 c d cs)
  have "d \<noteq> CHR ''_''" using "3.prems" by (auto simp: is_digit_def)
  with 3 show ?case by simp
qed simp_all

lemma int_strip_no_space: "\<forall>c \<in> set s. \<not> is_int_space c \<Longrightarrow> int_strip s = s"
proof -
  assume a: "\<forall>c \<in> set s. \<not> is_int_space c"
  have "dropWhile is_int_space s = s" using a by (cases s) auto
  moreover have "dropWhile is_int_space (rev s) = rev s" using a by (cases "rev s") (auto dest: arg_cong [where f = set])
  ultimately show ?thesis by (simp add: int_strip_def)
qed


lemma nat_digits_no_space: "\<forall>c \<in> set (nat_digits n). \<not> is_int_space c"
  using nat_digits_all digit_char_props(3) by blast

lemma nat_digits_is_digit: "\<forall>c \<in> set (nat_digits n). is_digit c"
  using nat_digits_all digit_char_props(1) by blast

lemma nat_digits_no_underscore: "filter (\<lambda>c. c \<noteq> CHR ''_'') (nat_digits n) = nat_digits n"
  using nat_digits_all digit_char_props(4) by (fastforce simp: filter_id_conv)

lemma hd_nat_digits: "nat_digits n = c # r \<Longrightarrow> c \<noteq> CHR ''-'' \<and> c \<noteq> CHR ''+''"
  using nat_digits_all [of c n] digit_char_props(5,6) by auto

lemma int_of_str_unsigned:
  assumes "int_strip s = s" and "s = c # r" and "c \<noteq> CHR ''-''" and "c \<noteq> CHR ''+''"
    and "valid_digits s"
  shows "int_of_str s = Some (int (digits_value (filter (\<lambda>c. c \<noteq> CHR ''_'') s)))"
proof -
  have "int_of_str (c # r) = Some (int (digits_value (filter (\<lambda>c. c \<noteq> CHR ''_'') (c # r))))"
    using assms(1,3,4,5) unfolding assms(2) int_of_str_def by (simp add: Let_def)
  then show ?thesis by (simp add: assms(2))
qed

lemma int_of_str_negative:
  assumes "int_strip (CHR ''-'' # r) = CHR ''-'' # r" and "valid_digits r"
  shows "int_of_str (CHR ''-'' # r) = Some (- int (digits_value (filter (\<lambda>c. c \<noteq> CHR ''_'') r)))"
  using assms unfolding int_of_str_def by (simp add: Let_def)

lemma valid_nat_digits: "valid_digits (nat_digits n)"
  by (rule valid_digits_all) (simp_all add: nat_digits_nonempty nat_digits_is_digit)

lemma int_of_str_nat_digits: "int_of_str (nat_digits n) = Some (int n)"
proof -
  obtain c r where cr: "nat_digits n = c # r"
    using nat_digits_nonempty [of n] by (cases "nat_digits n") auto
  have s: "int_strip (nat_digits n) = nat_digits n"
    by (rule int_strip_no_space) (rule nat_digits_no_space)
  from hd_nat_digits [OF cr] have "c \<noteq> CHR ''-''" "c \<noteq> CHR ''+''" by simp_all
  from int_of_str_unsigned [OF s cr this valid_nat_digits]
  show ?thesis by (simp add: nat_digits_no_underscore digits_value_nat_digits)
qed

lemma int_of_str_minus_nat_digits: "int_of_str (CHR ''-'' # nat_digits n) = Some (- int n)"
proof -
  have "\<forall>c \<in> set (CHR ''-'' # nat_digits n). \<not> is_int_space c"
    using nat_digits_no_space [of n] by (simp add: is_int_space_def)
  then have s: "int_strip (CHR ''-'' # nat_digits n) = CHR ''-'' # nat_digits n"
    by (rule int_strip_no_space)
  from int_of_str_negative [OF s valid_nat_digits]
  show ?thesis by (simp add: nat_digits_no_underscore digits_value_nat_digits)
qed

lemma int_of_str_str_of_int: "int_of_str (str_of_int n) = Some n"
  by (simp add: str_of_int_def int_of_str_nat_digits int_of_str_minus_nat_digits)



lemma universal_newlines_plain:
  "CHR 0x0D \<notin> set s \<Longrightarrow> universal_newlines s = s"
  by (induction s rule: universal_newlines.induct) auto

subsection \<open>Facts about Sell\<close>

lemma sell_loop_error:
  "sell_loop F today iid q items st = (Inl e, st') \<Longrightarrow> st' = st"
  by (induction items arbitrary: e st')
     (auto simp: Let_def split: if_splits option.splits sum.splits prod.splits)

lemma sell_loop_unfound:
  "sell_loop F today iid q items st = (Inr (False, items'), st')
   \<Longrightarrow> st' = st \<and> items' = items \<and> (\<forall>r \<in> set items. id_f r \<noteq> iid)"
  by (induction items arbitrary: items' st')
     (auto simp: Let_def split: if_splits option.splits sum.splits prod.splits)

lemma sell_loop_head:
  assumes "id_f r = iid"
    and "sell_loop F today iid q (r # post) st = (Inr (found, items'), st')"
  shows "\<exists>cq p os ti fq.
           int_of_str (quantity r) = Some cq \<and> q \<le> cq
         \<and> float_of_str F (remove_dollar (price r)) = Some p
         \<and> int_of_str (sold r) = Some os
         \<and> float_of_str F (total_investment r) = Some ti
         \<and> float_of_int F q = Some fq
         \<and> found
         \<and> items' = r\<lparr>quantity := str_of_int (cq - q), sold := str_of_int (os + q),
                        total_investment := float_str F (round2 F (float_sub F ti (float_mul F fq p)))\<rparr> # post
         \<and> st' = add_sale_record F today iid (name r) q (float_mul F fq p) st"
  using assms
  by (auto simp: Let_def int_times_float_def split: if_splits option.splits sum.splits prod.splits)

lemma sell_loop_skip:
  "\<forall>x \<in> set pre. id_f x \<noteq> iid \<Longrightarrow>
   sell_loop F today iid q (pre @ rest) st =
     (case sell_loop F today iid q rest st of
        (Inl e, st') \<Rightarrow> (Inl e, st')
      | (Inr (found, rest'), st') \<Rightarrow> (Inr (found, pre @ rest'), st'))"
  by (induction pre) (auto split: prod.splits sum.splits)

lemma sell_loop_no_match:
  "\<forall>x \<in> set items. id_f x \<noteq> iid \<Longrightarrow> sell_loop F today iid q items st = (Inr (False, items), st)"
  using sell_loop_skip [of items iid F today q "[]" st] by simp

lemma sell_loop_found:
  assumes "sell_loop F today iid q items st = (Inr (True, items'), st')"
  shows "\<exists>pre r post cq p os ti fq.
           items = pre @ r # post \<and> (\<forall>x \<in> set pre. id_f x \<noteq> iid) \<and> id_f r = iid
         \<and> int_of_str (quantity r) = Some cq \<and> q \<le> cq
         \<and> float_of_str F (remove_dollar (price r)) = Some p
         \<and> int_of_str (sold r) = Some os
         \<and> float_of_str F (total_investment r) = Some ti
         \<and> float_of_int F q = Some fq
         \<and> items' = pre @ r\<lparr>quantity := str_of_int (cq - q), sold := str_of_int (os + q),
                        total_investment := float_str F (round2 F (float_sub F ti (float_mul F fq p)))\<rparr> # post
         \<and> st' = add_sale_record F today iid (name r) q (float_mul F fq p) st"
proof -
  have "\<exists>x \<in> set items. id_f x = iid"
    using assms sell_loop_no_match [of items iid F today q st] by auto
  then obtain pre r post where sp: "items = pre @ r # post" "id_f r = iid"
      "\<forall>x \<in> set pre. id_f x \<noteq> iid"
    using split_list_first_prop [of items "\<lambda>x. id_f x = iid"] by blast
  from assms sell_loop_skip [OF sp(3), of F today q "r # post" st]
  obtain tl' where tl: "sell_loop F today iid q (r # post) st = (Inr (True, tl'), st')"
      "items' = pre @ tl'"
    unfolding sp(1) by (auto split: prod.splits sum.splits)
  from sell_loop_head [OF sp(2) tl(1)] sp tl(2) show ?thesis by blast
qed

lemma sell_item_error:
  "sell_item F today iid data st = (Inl e, st') \<Longrightarrow> st' = st"
  unfolding sell_item_def
  by (auto simp: Let_def split: option.splits if_splits sum.splits prod.splits bool.splits
      dest: sell_loop_error sell_loop_unfound)

lemma sell_item_success:
  assumes "sell_item F today iid data st = (Inr resp, st')"
  shows "\<exists>v q pre r post cq p os ti fq.
           map_of data ''sold'' = Some v \<and> py_int F v = Inr q \<and> 0 < q
         \<and> inventory_csv st = pre @ r # post \<and> (\<forall>x \<in> set pre. id_f x \<noteq> iid) \<and> id_f r = iid
         \<and> int_of_str (quantity r) = Some cq \<and> q \<le> cq
         \<and> float_of_str F (remove_dollar (price r)) = Some p
         \<and> int_of_str (sold r) = Some os
         \<and> float_of_str F (total_investment r) = Some ti
         \<and> float_of_int F q = Some fq
         \<and> inventory_csv st' = pre @ r\<lparr>quantity := str_of_int (cq - q), sold := str_of_int (os + q),
                        total_investment := float_str F (round2 F (float_sub F ti (float_mul F fq p)))\<rparr> # post
         \<and> sales_history_csv st' = sales_history_csv st @
              [\<lparr>date = today, item_id = iid, item_name = name r, sold_quantity = str_of_int q,
                amount = float_str F (round2 F (float_mul F fq p))\<rparr>]
         \<and> resp = [(''message'', str_of_int q @ '' units sold'')]"
proof -
  from assms obtain v q items' st1 where
    v: "map_of data ''sold'' = Some v" "py_int F v = Inr q" "0 < q"
    and l: "sell_loop F today iid q (read_items st) st = (Inr (True, items'), st1)"
    and r: "st' = write_items items' st1" "resp = [(''message'', str_of_int q @ '' units sold'')]"
    unfolding sell_item_def
    by (auto simp: Let_def split: option.splits if_splits sum.splits prod.splits bool.splits)
  from sell_loop_found [OF l] v r show ?thesis
    by (auto simp: read_items_def write_items_def add_sale_record_def) blast
qed

lemma quantity_changes:
  assumes "int_of_str (quantity r) = Some cq" and "0 < q"
  shows "r\<lparr>quantity := str_of_int (cq - q), sold := a, total_investment := b\<rparr> \<noteq> r"
proof
  assume "r\<lparr>quantity := str_of_int (cq - q), sold := a, total_investment := b\<rparr> = r"
  then have "quantity (r\<lparr>quantity := str_of_int (cq - q), sold := a, total_investment := b\<rparr>) = quantity r"
    by simp
  then have "str_of_int (cq - q) = quantity r" by simp
  then have "int_of_str (str_of_int (cq - q)) = Some cq" using assms(1) by simp
  then show False using assms(2) by (simp add: int_of_str_str_of_int)
qed

subsection \<open>Facts about Update\<close>

lemma update_loop_skip:
  "\<forall>x \<in> set pre. id_f x \<noteq> iid \<Longrightarrow>
   update_loop F iid item (pre @ rest) =
     (case update_loop F iid item rest of
        Inl e \<Rightarrow> Inl e
      | Inr (found, rest') \<Rightarrow> Inr (found, pre @ rest'))"
  by (induction pre) (auto split: prod.splits sum.splits)

lemma update_loop_no_match:
  "\<forall>x \<in> set items. id_f x \<noteq> iid \<Longrightarrow> update_loop F iid item items = Inr (False, items)"
  using update_loop_skip [of items iid F item "[]"] by simp

lemma update_loop_head:
  assumes "id_f r = iid" and "update_loop F iid item (r # post) = Inr (found, items')"
  shows "\<exists>r'. found \<and> items' = r' # post \<and> id_f r' = iid \<and> sold r' = sold r"
  using assms
  by (auto simp: Let_def split: if_splits option.splits sum.splits)

lemma update_loop_found:
  assumes "update_loop F iid item items = Inr (True, items')"
  shows "\<exists>pre r r' post.
           items = pre @ r # post \<and> (\<forall>x \<in> set pre. id_f x \<noteq> iid) \<and> id_f r = iid
         \<and> items' = pre @ r' # post \<and> id_f r' = iid \<and> sold r' = sold r"
proof -
  have "\<exists>x \<in> set items. id_f x = iid"
    using assms update_loop_no_match [of items iid F item] by auto
  then obtain pre r post where sp: "items = pre @ r # post" "id_f r = iid"
      "\<forall>x \<in> set pre. id_f x \<noteq> iid"
    using split_list_first_prop [of items "\<lambda>x. id_f x = iid"] by blast
  from assms update_loop_skip [OF sp(3), of F item "r # post"]
  obtain tl' where tl: "update_loop F iid item (r # post) = Inr (True, tl')" "items' = pre @ tl'"
    unfolding sp(1) by (auto split: prod.splits sum.splits)
  from update_loop_head [OF sp(2) tl(1)] sp tl(2) show ?thesis by blast
qed

lemma update_item_error:
  "update_item F iid item st = (Inl e, st') \<Longrightarrow> st' = st"
  unfolding update_item_def
  by (auto simp: Let_def split: sum.splits prod.splits if_splits)

lemma update_item_success:
  assumes "update_item F iid item st = (Inr resp, st')"
  shows "\<exists>pre r r' post.
           inventory_csv st = pre @ r # post \<and> (\<forall>x \<in> set pre. id_f x \<noteq> iid) \<and> id_f r = iid
         \<and> inventory_csv st' = pre @ r' # post \<and> id_f r' = iid \<and> sold r' = sold r
         \<and> sales_history_csv st' = sales_history_csv st"
proof -
  from assms obtain items' where
    l: "update_loop F iid item (read_items st) = Inr (True, items')"
    and r: "st' = write_items items' st"
    unfolding update_item_def
    by (auto simp: Let_def split: sum.splits prod.splits if_splits)
  from update_loop_found [OF l] r show ?thesis
    by (auto simp: read_items_def write_items_def)
qed



subsection \<open>Facts about Delete\<close>

lemma delete_item_error: "delete_item iid st = (Inl e, st') \<Longrightarrow> st' = st"
  by (auto simp: delete_item_def Let_def split: if_splits)

lemma delete_item_success:
  "delete_item iid st = (Inr resp, st') \<Longrightarrow>
     inventory_csv st' = filter (\<lambda>x. id_f x \<noteq> iid) (inventory_csv st)
   \<and> sales_history_csv st' = sales_history_csv st"
  by (auto simp: delete_item_def Let_def read_items_def write_items_def split: if_splits)

subsection \<open>Facts about Add\<close>



lemma add_item_error: "add_item F item st = (Inl e, st') \<Longrightarrow> st' = st"
  unfolding add_item_def
  by (auto simp: Let_def write_items_def read_items_def
      split: option.splits sum.splits if_splits jval.splits)

lemma add_item_success:
  assumes "add_item F item st = (Inr resp, st')"
  shows "\<exists>nid new. next_id (inventory_csv st) = Inr nid
          \<and> resp = [(''message'', ''Item added''), (''id'', nid)]
          \<and> inventory_csv st' = inventory_csv st @ [new] \<and> id_f new = nid \<and> sold new = ''0''
          \<and> sales_history_csv st' = sales_history_csv st"
  using assms unfolding add_item_def
  by (auto simp: Let_def write_items_def read_items_def
      split: option.splits sum.splits if_splits jval.splits)

subsection \<open>Facts about the next id\<close>

lemma those_map_Some:
  "\<forall>x \<in> set xs. f x \<noteq> None \<Longrightarrow> those (map f xs) = Some (map (\<lambda>x. the (f x)) xs)"
  by (induction xs) auto

lemma max_default_nonempty: "xs \<noteq> [] \<Longrightarrow> max_default xs d = Max (set xs)"
proof -
  assume "xs \<noteq> []"
  then obtain a list where "xs = a # list" by (cases xs) auto
  then show ?thesis by (simp only: max_default.simps Max.set_eq_fold)
qed

lemma next_id_parsed:
  assumes "\<forall>r \<in> set items. int_of_str (id_f r) \<noteq> None"
  shows "next_id items =
          Inr (format_03 ((if items = [] then 0
                           else Max (set (map (\<lambda>r. the (int_of_str (id_f r))) items))) + 1))"
proof (cases "items = []")
  case True
  have "format_03 1 = ''001''" by code_simp
  with True show ?thesis by (simp add: next_id_def)
next
  case False
  then have "map (\<lambda>r. the (int_of_str (id_f r))) items \<noteq> []" by simp
  from max_default_nonempty [OF this] False those_map_Some [OF assms]
  show ?thesis by (simp add: next_id_def)
qed

lemma length_nat_digits_small:
  "n < 10 \<Longrightarrow> length (nat_digits n) = 1"
  "10 \<le> n \<Longrightarrow> n < 100 \<Longrightarrow> length (nat_digits n) = 2"
  "100 \<le> n \<Longrightarrow> n < 1000 \<Longrightarrow> length (nat_digits n) = 3"
proof -
  show 1: "length (nat_digits n) = 1" if "n < 10" for n
    using that by (simp add: nat_digits.simps [of n])
  show 2: "length (nat_digits n) = 2" if "10 \<le> n" "n < 100" for n
  proof -
    have "n div 10 < 10" using that by simp
    from 1 [OF this] that show ?thesis by (simp add: nat_digits.simps [of n])
  qed
  show "length (nat_digits n) = 3" if "100 \<le> n" "n < 1000"
  proof -
    have "10 \<le> n div 10" "n div 10 < 100" using that by simp_all
    from 2 [OF this] that show ?thesis by (simp add: nat_digits.simps [of n])
  qed
qed

lemma length_nat_digits_ge: "10 ^ k \<le> n \<Longrightarrow> k < length (nat_digits n)"
proof (induction k arbitrary: n)
  case 0
  then show ?case using nat_digits_nonempty [of n] by (cases "nat_digits n") auto
next
  case (Suc k)
  then have "10 ^ k \<le> n div 10" by (simp add: less_eq_div_iff_mult_less_eq)
  from Suc.IH [OF this] have "k < length (nat_digits (n div 10))" .
  moreover have "(10::nat) \<le> 10 * 10 ^ k" by simp
  then have "\<not> n < 10" using Suc.prems unfolding power_Suc by linarith
  ultimately show ?case by (simp add: nat_digits.simps [of n])
qed

lemma is_digit_props:
  assumes "is_digit c"
  shows "\<not> is_int_space c" and "c \<noteq> CHR ''_''" and "c \<noteq> CHR ''-''" and "c \<noteq> CHR ''+''"
  using assms by (auto simp: is_digit_def is_int_space_def)

lemma int_of_str_digits:
  assumes "s \<noteq> []" and "\<forall>c \<in> set s. is_digit c"
  shows "int_of_str s = Some (int (digits_value s))"
proof -
  obtain c r where cr: "s = c # r" using assms(1) by (cases s) auto
  have st: "int_strip s = s"
    by (rule int_strip_no_space) (use assms(2) is_digit_props(1) in blast)
  have c: "c \<noteq> CHR ''-''" "c \<noteq> CHR ''+''"
    using assms(2) cr is_digit_props(3,4) by auto
  have f: "filter (\<lambda>c. c \<noteq> CHR ''_'') s = s"
    using assms(2) is_digit_props(2) by (fastforce simp: filter_id_conv)
  from int_of_str_unsigned [OF st cr c valid_digits_all [OF assms]] f show ?thesis by simp
qed

lemma digits_value_zeros: "digits_value (replicate k CHR ''0'' @ s) = digits_value s"
proof -
  have "foldl (\<lambda>a c. 10 * a + digit_value c) 0 (replicate k CHR ''0'') = 0"
    by (induction k) (simp_all add: digit_value_def)
  then show ?thesis by (simp add: digits_value_def)
qed

lemma format_03_nonneg:
  assumes "0 \<le> m"
  shows "format_03 m = replicate (3 - length (str_of_int m)) CHR ''0'' @ str_of_int m"
    and "int_of_str (format_03 m) = Some m"
    and "m \<le> 999 \<Longrightarrow> length (format_03 m) = 3"
    and "999 < m \<Longrightarrow> format_03 m = str_of_int m"
proof -
  have s: "str_of_int m = nat_digits (nat m)" using assms by (simp add: str_of_int_def)
  show f: "format_03 m = replicate (3 - length (str_of_int m)) CHR ''0'' @ str_of_int m"
    using assms by (simp add: format_03_def s Let_def)
  have z: "is_digit CHR ''0''" by (simp add: is_digit_def)
  have d: "\<forall>c \<in> set (format_03 m). is_digit c"
    unfolding f s using nat_digits_is_digit [of "nat m"] z by auto
  have n: "format_03 m \<noteq> []" unfolding f s by (simp add: nat_digits_nonempty)
  from int_of_str_digits [OF n d] show "int_of_str (format_03 m) = Some m"
    unfolding f s using assms by (simp add: digits_value_zeros digits_value_nat_digits)
  show "length (format_03 m) = 3" if le: "m \<le> 999"
  proof -
    consider "nat m < 10" | "10 \<le> nat m" "nat m < 100" | "100 \<le> nat m" "nat m < 1000"
      using le by linarith
    then show ?thesis
      unfolding f s by cases (simp_all add: length_nat_digits_small)
  qed
  show "format_03 m = str_of_int m" if "999 < m"
  proof -
    have "10 ^ 3 \<le> nat m" using that by simp
    from length_nat_digits_ge [OF this] show ?thesis unfolding f s by simp
  qed
qed

subsection \<open>Facts about the sales history\<close>







subsection \<open>Facts about the sold counter\<close>

lemma int_of_str_zero: "int_of_str ''0'' = Some 0"
  by code_simp

lemma sold_ok_add: "sold_ok st \<Longrightarrow> sold_ok (snd (add_item F item st))"
proof (cases "fst (add_item F item st)")
  case (Inl e)
  then have "add_item F item st = (Inl e, snd (add_item F item st))" by (metis prod.collapse)
  from add_item_error [OF this] show "sold_ok st \<Longrightarrow> ?thesis" by simp
next
  case (Inr resp)
  then have "add_item F item st = (Inr resp, snd (add_item F item st))" by (metis prod.collapse)
  from add_item_success [OF this] show "sold_ok st \<Longrightarrow> ?thesis"
    by (auto simp: sold_ok_def int_of_str_zero)
qed

lemma sold_ok_update: "sold_ok st \<Longrightarrow> sold_ok (snd (update_item F iid item st))"
proof (cases "fst (update_item F iid item st)")
  case (Inl e)
  then have "update_item F iid item st = (Inl e, snd (update_item F iid item st))"
    by (metis prod.collapse)
  from update_item_error [OF this] show "sold_ok st \<Longrightarrow> ?thesis" by simp
next
  case (Inr resp)
  then have "update_item F iid item st = (Inr resp, snd (update_item F iid item st))"
    by (metis prod.collapse)
  from update_item_success [OF this] show "sold_ok st \<Longrightarrow> ?thesis"
    by (auto simp: sold_ok_def)
qed

lemma sold_ok_delete: "sold_ok st \<Longrightarrow> sold_ok (snd (delete_item iid st))"
proof (cases "fst (delete_item iid st)")
  case (Inl e)
  then have "delete_item iid st = (Inl e, snd (delete_item iid st))" by (metis prod.collapse)
  from delete_item_error [OF this] show "sold_ok st \<Longrightarrow> ?thesis" by simp
next
  case (Inr resp)
  then have "delete_item iid st = (Inr resp, snd (delete_item iid st))" by (metis prod.collapse)
  from delete_item_success [OF this] show "sold_ok st \<Longrightarrow> ?thesis"
    by (auto simp: sold_ok_def)
qed

lemma sell_item_sold:
  assumes "sell_item F today iid data st = (Inr resp, st')"
  shows "\<exists>pre r r' post q old_sold. 0 < q
          \<and> inventory_csv st = pre @ r # post \<and> inventory_csv st' = pre @ r' # post
          \<and> int_of_str (sold r) = Some old_sold \<and> int_of_str (sold r') = Some (old_sold + q)"
proof -
  from sell_item_success [OF assms] obtain q pre r post cq os a where
    f: "0 < q" "inventory_csv st = pre @ r # post" "int_of_str (sold r) = Some os"
       "inventory_csv st' = pre @ r\<lparr>quantity := str_of_int (cq - q), sold := str_of_int (os + q),
                        total_investment := a\<rparr> # post"
    by blast
  have "int_of_str (sold (r\<lparr>quantity := str_of_int (cq - q), sold := str_of_int (os + q),
                        total_investment := a\<rparr>)) = Some (os + q)"
    by (simp add: int_of_str_str_of_int)
  with f show ?thesis by blast
qed

lemma sold_ok_sell: "sold_ok st \<Longrightarrow> sold_ok (snd (sell_item F today iid data st))"
proof (cases "fst (sell_item F today iid data st)")
  case (Inl e)
  then have "sell_item F today iid data st = (Inl e, snd (sell_item F today iid data st))"
    by (metis prod.collapse)
  from sell_item_error [OF this] show "sold_ok st \<Longrightarrow> ?thesis" by simp
next
  case (Inr resp)
  then have "sell_item F today iid data st = (Inr resp, snd (sell_item F today iid data st))"
    by (metis prod.collapse)
  from sell_item_sold [OF this] show "sold_ok st \<Longrightarrow> ?thesis"
    by (auto simp: sold_ok_def)
qed

lemma sold_ok_exec: "sold_ok st \<Longrightarrow> sold_ok (exec_op F op st)"
  by (cases op) (simp_all add: sold_ok_add sold_ok_update sold_ok_delete sold_ok_sell)

lemma sold_ok_run: "sold_ok st \<Longrightarrow> sold_ok (run F ops st)"
  unfolding run_def by (induction ops arbitrary: st) (simp_all add: sold_ok_exec)

lemma update_item_sold:
  "map sold (inventory_csv (snd (update_item F iid item st))) = map sold (inventory_csv st)"
proof (cases "fst (update_item F iid item st)")
  case (Inl e)
  then have "update_item F iid item st = (Inl e, snd (update_item F iid item st))"
    by (metis prod.collapse)
  from update_item_error [OF this] show ?thesis by simp
next
  case (Inr resp)
  then have "update_item F iid item st = (Inr resp, snd (update_item F iid item st))"
    by (metis prod.collapse)
  from update_item_success [OF this] show ?thesis by auto
qed

lemma delete_item_filter:
  "inventory_csv (snd (delete_item iid st)) = filter (\<lambda>x. id_f x \<noteq> iid) (inventory_csv st)"
proof (cases "length (filter (\<lambda>x. id_f x \<noteq> iid) (inventory_csv st)) = length (inventory_csv st)")
  case True
  have "\<forall>x \<in> set (inventory_csv st). id_f x \<noteq> iid"
  proof (rule ccontr)
    assume "\<not> (\<forall>x \<in> set (inventory_csv st). id_f x \<noteq> iid)"
    then obtain x where "x \<in> set (inventory_csv st)" "\<not> id_f x \<noteq> iid" by blast
    from length_filter_less [of x "inventory_csv st" "\<lambda>x. id_f x \<noteq> iid", OF this] True
    show False by simp
  qed
  then have "filter (\<lambda>x. id_f x \<noteq> iid) (inventory_csv st) = inventory_csv st"
    by (simp add: filter_id_conv)
  with True show ?thesis by (simp add: delete_item_def Let_def read_items_def)
next
  case False
  then show ?thesis by (simp add: delete_item_def Let_def read_items_def write_items_def)
qed

section \<open>The claims\<close>


text \<open>
  C3. A sale request whose quantity is JSON \<open>null\<close> passes the presence and blank
  checks (\<open>str(None)\<close> is \<open>None\<close> spelled out, not blank), and \<open>int(None)\<close> raises
  \<open>TypeError\<close>, which the handler for \<open>ValueError\<close> does not catch: the request fails
  with none of the validation errors.
\<close>

theorem sell_item_null_quantity:
  "sell_item F today iid [(''sold'', JNull)] st = (Inl TypeError, st)
   \<and> TypeError \<notin> {MissingQuantity, InvalidQuantityFormat, NonPositiveQuantity, RecordNotFound}"
  by (simp add: sell_item_def strip_def is_space_def MissingQuantity_def
      InvalidQuantityFormat_def NonPositiveQuantity_def RecordNotFound_def)

text \<open>
  C2. Whenever \<open>sell_item\<close> ends in an error, whichever it is, both tables are exactly
  as they were before the attempt. The sales ledger changes if and only if the inventory
  table changes, and when it changes it has grown by exactly one entry.
\<close>

theorem sell_item_failure_leaves_tables:
  assumes "sell_item F today iid data st = (res, st')"
  shows "(\<forall>e. res = Inl e \<longrightarrow> st' = st)
       \<and> (sales_history_csv st' \<noteq> sales_history_csv st \<longleftrightarrow> inventory_csv st' \<noteq> inventory_csv st)
       \<and> (sales_history_csv st' = sales_history_csv st
           \<or> (\<exists>entry. sales_history_csv st' = sales_history_csv st @ [entry]))"
proof (cases res)
  case (Inl e)
  with assms have "st' = st" by (auto dest: sell_item_error)
  then show ?thesis by simp
next
  case (Inr resp)
  with assms have "sell_item F today iid data st = (Inr resp, st')" by simp
  from sell_item_success [OF this] obtain q pre r post cq a b entry where
    f: "0 < q" "inventory_csv st = pre @ r # post" "int_of_str (quantity r) = Some cq"
       "inventory_csv st' = pre @ r\<lparr>quantity := str_of_int (cq - q), sold := a, total_investment := b\<rparr> # post"
       "sales_history_csv st' = sales_history_csv st @ [entry]"
    by blast
  from quantity_changes [OF f(3) f(1)] f(2,4) have "inventory_csv st' \<noteq> inventory_csv st"
    by simp
  with f(5) Inr show ?thesis by simp
qed

theorem sell_item_failure_leaves_tables_witness:
  "fst (sell_item whole_floats ''2024-05-01'' ''001'' [(''sold'', JInt 11)] shop)
     = Inl (InsufficientStock 10)
   \<and> snd (sell_item whole_floats ''2024-05-01'' ''001'' [(''sold'', JInt 11)] shop) = shop"
proof -
  let ?res = "sell_item whole_floats ''2024-05-01'' ''001'' [(''sold'', JInt 11)] shop"
  have h: "?res = (fst ?res, snd ?res)" by simp
  have f: "fst ?res = Inl (InsufficientStock 10)" by code_simp
  from sell_item_failure_leaves_tables [OF h] f show ?thesis by blast
qed

text \<open>
  C1 (as amended). Let the first record with the given id have a stored quantity that
  parses to \<open>cq\<close>, a price that parses as a float once the dollar signs are removed, and
  a sold counter and a total investment that parse; let the request carry a quantity that
  is present, not blank, converts to an integer \<open>s\<close> with \<open>0 < s \<le> cq\<close>, and \<open>s\<close> be
  convertible to a float. Then \<open>sell_item\<close> succeeds; that record's quantity becomes
  \<open>cq - s\<close>, its sold counter grows by \<open>s\<close>, its total investment becomes
  \<open>round(old - s * unit_price, 2)\<close>; every other record is as before; and exactly one
  ledger entry is appended, with amount \<open>round(s * unit_price, 2)\<close>.

  As stated, without the condition on the price, the claim fails: with the price
  \<open>$abc\<close> the sale of 3 out of 10 units is refused with ``Invalid item price''.
\<close>

theorem sell_item_valid_sale:
  assumes "map_of data ''sold'' = Some v" and "strip (py_str F v) \<noteq> []"
    and "py_int F v = Inr s" and "0 < s"
    and "inventory_csv st = pre @ r # post" and "\<forall>x \<in> set pre. id_f x \<noteq> iid" and "id_f r = iid"
    and "int_of_str (quantity r) = Some cq" and "s \<le> cq"
    and "float_of_str F (remove_dollar (price r)) = Some unit_price"
    and "int_of_str (sold r) = Some old_sold"
    and "float_of_str F (total_investment r) = Some old_investment"
    and "float_of_int F s = Some fs"
  shows "sell_item F today iid data st =
          (Inr [(''message'', str_of_int s @ '' units sold'')],
           \<lparr>inventory_csv =
              pre @ r\<lparr>quantity := str_of_int (cq - s),
                       sold := str_of_int (old_sold + s),
                       total_investment :=
                         float_str F (round2 F (float_sub F old_investment (float_mul F fs unit_price)))\<rparr>
                  # post,
            sales_history_csv =
              sales_history_csv st @
                [\<lparr>date = today, item_id = iid, item_name = name r, sold_quantity = str_of_int s,
                  amount = float_str F (round2 F (float_mul F fs unit_price))\<rparr>]\<rparr>)"
proof -
  have head: "sell_loop F today iid s (r # post) st =
      (Inr (True, r\<lparr>quantity := str_of_int (cq - s), sold := str_of_int (old_sold + s),
                     total_investment :=
                       float_str F (round2 F (float_sub F old_investment (float_mul F fs unit_price)))\<rparr> # post),
       add_sale_record F today iid (name r) s (float_mul F fs unit_price) st)"
    using assms(7-13) by (simp add: Let_def int_times_float_def)
  have loop: "sell_loop F today iid s (read_items st) st =
      (Inr (True, pre @ r\<lparr>quantity := str_of_int (cq - s), sold := str_of_int (old_sold + s),
                     total_investment :=
                       float_str F (round2 F (float_sub F old_investment (float_mul F fs unit_price)))\<rparr> # post),
       add_sale_record F today iid (name r) s (float_mul F fs unit_price) st)"
    unfolding read_items_def assms(5) sell_loop_skip [OF assms(6)] head by simp
  show ?thesis
    unfolding sell_item_def using assms(1-4) loop
    by (simp add: Let_def write_items_def add_sale_record_def)
qed

theorem sell_item_valid_sale_witness:
  "sell_item whole_floats ''2024-05-01'' ''001'' [(''sold'', JStr ''3'')] shop =
     (Inr [(''message'', ''3 units sold'')],
      \<lparr>inventory_csv =
         [\<lparr>id_f = ''001'', name = ''widget'', quantity = ''7'', price = ''$2'',
           total_investment = ''14.0'', sold = ''3''\<rparr>],
       sales_history_csv =
         [\<lparr>date = ''2024-05-01'', item_id = ''001'', item_name = ''widget'',
           sold_quantity = ''3'', amount = ''6.0''\<rparr>]\<rparr>)"
proof -
  let ?r = "\<lparr>id_f = ''001'', name = ''widget'', quantity = ''10'', price = ''$2'',
             total_investment = ''20.0'', sold = ''0''\<rparr>"
  have h1: "map_of [(''sold'', JStr ''3'')] ''sold'' = Some (JStr ''3'' :: int jval)" by simp
  have h2: "strip (py_str whole_floats (JStr ''3'')) \<noteq> []" by code_simp
  have h3: "py_int whole_floats (JStr ''3'') = Inr 3" by code_simp
  have h4: "(0::int) < 3" by simp
  have h5: "inventory_csv shop = [] @ ?r # []" by (simp add: shop_def)
  have h6: "\<forall>x \<in> set []. id_f x \<noteq> ''001''" by simp
  have h7: "id_f ?r = ''001''" by simp
  have h8: "int_of_str (quantity ?r) = Some 10" by code_simp
  have h9: "(3::int) \<le> 10" by simp
  have h10: "float_of_str whole_floats (remove_dollar (price ?r)) = Some 2" by code_simp
  have h11: "int_of_str (sold ?r) = Some 0" by code_simp
  have h12: "float_of_str whole_floats (total_investment ?r) = Some 20" by code_simp
  have h13: "float_of_int whole_floats 3 = Some 3" by code_simp
  have e1: "str_of_int 3 = ''3''" "str_of_int (10 - 3) = ''7''" "str_of_int (0 + 3) = ''3''"
    by code_simp+
  have e2: "float_str whole_floats (round2 whole_floats (float_sub whole_floats 20 (float_mul whole_floats 3 2))) = ''14.0''"
    "float_str whole_floats (round2 whole_floats (float_mul whole_floats 3 2)) = ''6.0''"
    by code_simp+
  from sell_item_valid_sale [OF h1 h2 h3 h4 h5 h6 h7 h8 h9 h10 h11 h12 h13, of "''2024-05-01''"]
  show ?thesis unfolding e1 e2 by (simp add: shop_def)
qed

theorem sell_item_corrupt_price_counterexample:
  "inventory_csv shop_corrupt_price =
     [\<lparr>id_f = ''001'', name = ''widget'', quantity = ''10'', price = ''$abc'',
       total_investment = ''20.0'', sold = ''0''\<rparr>]
   \<and> int_of_str ''10'' = Some 10
   \<and> py_int whole_floats (JInt 3) = Inr 3 \<and> (0::int) < 3 \<and> (3::int) \<le> 10
   \<and> sell_item whole_floats ''2024-05-01'' ''001'' [(''sold'', JInt 3)] shop_corrupt_price
       = (Inl CorruptPrice, shop_corrupt_price)"
  by code_simp




text \<open>
  C9. A successful Update and a successful Sell change the first record with the given
  id, in store order, and nothing else: the records before it and after it, later records
  with the same id among them, are the same. A successful Delete leaves exactly the
  records whose id differs from the given one, so it removes every record with that id.
  The witness runs the three operations on a store with two records of id \<open>001\<close>.
\<close>

theorem first_match_only:
  "(update_item F iid item st = (Inr resp, st') \<longrightarrow>
      (\<exists>pre r r' post. inventory_csv st = pre @ r # post \<and> (\<forall>x \<in> set pre. id_f x \<noteq> iid)
          \<and> id_f r = iid \<and> inventory_csv st' = pre @ r' # post))
   \<and> (sell_item F today sell_id data sell_st = (Inr sell_resp, sell_st') \<longrightarrow>
      (\<exists>pre r r' post. inventory_csv sell_st = pre @ r # post \<and> (\<forall>x \<in> set pre. id_f x \<noteq> sell_id)
          \<and> id_f r = sell_id \<and> inventory_csv sell_st' = pre @ r' # post))
   \<and> (delete_item del_id del_st = (Inr del_resp, del_st') \<longrightarrow>
      inventory_csv del_st' = filter (\<lambda>x. id_f x \<noteq> del_id) (inventory_csv del_st)
      \<and> (\<forall>x \<in> set (inventory_csv del_st'). id_f x \<noteq> del_id))"
proof (intro conjI impI)
  assume "update_item F iid item st = (Inr resp, st')"
  from update_item_success [OF this]
  show "\<exists>pre r r' post. inventory_csv st = pre @ r # post \<and> (\<forall>x \<in> set pre. id_f x \<noteq> iid)
          \<and> id_f r = iid \<and> inventory_csv st' = pre @ r' # post"
    by blast
next
  assume "sell_item F today sell_id data sell_st = (Inr sell_resp, sell_st')"
  from sell_item_success [OF this]
  show "\<exists>pre r r' post. inventory_csv sell_st = pre @ r # post \<and> (\<forall>x \<in> set pre. id_f x \<noteq> sell_id)
          \<and> id_f r = sell_id \<and> inventory_csv sell_st' = pre @ r' # post"
    by blast
next
  assume a: "delete_item del_id del_st = (Inr del_resp, del_st')"
  from delete_item_success [OF a]
  show "inventory_csv del_st' = filter (\<lambda>x. id_f x \<noteq> del_id) (inventory_csv del_st)"
    by simp
  from delete_item_success [OF a]
  show "\<forall>x \<in> set (inventory_csv del_st'). id_f x \<noteq> del_id"
    by simp
qed


theorem first_match_only_witness:
  "update_item whole_floats ''001'' [(''quantity'', JInt 7)] shop_duplicates =
     (Inr [(''message'', ''Item updated'')],
      \<lparr>inventory_csv =
         [\<lparr>id_f = ''001'', name = ''widget'', quantity = ''7'', price = ''$2'',
           total_investment = ''14.0'', sold = ''0''\<rparr>,
          \<lparr>id_f = ''001'', name = ''gadget'', quantity = ''5'', price = ''$3'',
           total_investment = ''15.0'', sold = ''0''\<rparr>,
          \<lparr>id_f = ''002'', name = ''bolt'', quantity = ''50'', price = ''$1'',
           total_investment = ''50.0'', sold = ''0''\<rparr>],
       sales_history_csv = []\<rparr>)
   \<and> sell_item whole_floats ''2024-05-01'' ''001'' [(''sold'', JInt 3)] shop_duplicates =
     (Inr [(''message'', ''3 units sold'')],
      \<lparr>inventory_csv =
         [\<lparr>id_f = ''001'', name = ''widget'', quantity = ''7'', price = ''$2'',
           total_investment = ''14.0'', sold = ''3''\<rparr>,
          \<lparr>id_f = ''001'', name = ''gadget'', quantity = ''5'', price = ''$3'',
           total_investment = ''15.0'', sold = ''0''\<rparr>,
          \<lparr>id_f = ''002'', name = ''bolt'', quantity = ''50'', price = ''$1'',
           total_investment = ''50.0'', sold = ''0''\<rparr>],
       sales_history_csv =
         [\<lparr>date = ''2024-05-01'', item_id = ''001'', item_name = ''widget'',
           sold_quantity = ''3'', amount = ''6.0''\<rparr>]\<rparr>)
   \<and> delete_item ''001'' shop_duplicates =
     (Inr [(''message'', ''Item deleted'')],
      \<lparr>inventory_csv =
         [\<lparr>id_f = ''002'', name = ''bolt'', quantity = ''50'', price = ''$1'',
           total_investment = ''50.0'', sold = ''0''\<rparr>],
       sales_history_csv = []\<rparr>)
   \<and> inventory_csv (snd (delete_item ''001'' shop_duplicates))
       = filter (\<lambda>x. id_f x \<noteq> ''001'') (inventory_csv shop_duplicates)
   \<and> (\<exists>pre r r' post. inventory_csv shop_duplicates = pre @ r # post
          \<and> (\<forall>x \<in> set pre. id_f x \<noteq> ''001'') \<and> id_f r = ''001''
          \<and> inventory_csv (snd (update_item whole_floats ''001'' [(''quantity'', JInt 7)] shop_duplicates))
              = pre @ r' # post)
   \<and> (\<exists>pre r r' post. inventory_csv shop_duplicates = pre @ r # post
          \<and> (\<forall>x \<in> set pre. id_f x \<noteq> ''001'') \<and> id_f r = ''001''
          \<and> inventory_csv (snd (sell_item whole_floats ''2024-05-01'' ''001'' [(''sold'', JInt 3)] shop_duplicates))
              = pre @ r' # post)"
proof -
  let ?bolt = "\<lparr>id_f = ''002'', name = ''bolt'', quantity = ''50'', price = ''$1'',
           total_investment = ''50.0'', sold = ''0''\<rparr>"
  have u: "update_item whole_floats ''001'' [(''quantity'', JInt 7)] shop_duplicates =
     (Inr [(''message'', ''Item updated'')],
      \<lparr>inventory_csv =
         [\<lparr>id_f = ''001'', name = ''widget'', quantity = ''7'', price = ''$2'',
           total_investment = ''14.0'', sold = ''0''\<rparr>,
          \<lparr>id_f = ''001'', name = ''gadget'', quantity = ''5'', price = ''$3'',
           total_investment = ''15.0'', sold = ''0''\<rparr>, ?bolt],
       sales_history_csv = []\<rparr>)"
    by code_simp
  have s: "sell_item whole_floats ''2024-05-01'' ''001'' [(''sold'', JInt 3)] shop_duplicates =
     (Inr [(''message'', ''3 units sold'')],
      \<lparr>inventory_csv =
         [\<lparr>id_f = ''001'', name = ''widget'', quantity = ''7'', price = ''$2'',
           total_investment = ''14.0'', sold = ''3''\<rparr>,
          \<lparr>id_f = ''001'', name = ''gadget'', quantity = ''5'', price = ''$3'',
           total_investment = ''15.0'', sold = ''0''\<rparr>, ?bolt],
       sales_history_csv =
         [\<lparr>date = ''2024-05-01'', item_id = ''001'', item_name = ''widget'',
           sold_quantity = ''3'', amount = ''6.0''\<rparr>]\<rparr>)"
    by code_simp
  have d: "delete_item ''001'' shop_duplicates =
     (Inr [(''message'', ''Item deleted'')], \<lparr>inventory_csv = [?bolt], sales_history_csv = []\<rparr>)"
    by code_simp
  have fd: "inventory_csv (snd (delete_item ''001'' shop_duplicates))
       = filter (\<lambda>x. id_f x \<noteq> ''001'') (inventory_csv shop_duplicates)"
    using first_match_only [THEN conjunct2, THEN conjunct2, rule_format, OF d] unfolding d by simp
  have fu: "\<exists>pre r r' post. inventory_csv shop_duplicates = pre @ r # post
          \<and> (\<forall>x \<in> set pre. id_f x \<noteq> ''001'') \<and> id_f r = ''001''
          \<and> inventory_csv (snd (update_item whole_floats ''001'' [(''quantity'', JInt 7)] shop_duplicates))
              = pre @ r' # post"
    using first_match_only [THEN conjunct1, rule_format, OF u] unfolding u by simp
  have fs: "\<exists>pre r r' post. inventory_csv shop_duplicates = pre @ r # post
          \<and> (\<forall>x \<in> set pre. id_f x \<noteq> ''001'') \<and> id_f r = ''001''
          \<and> inventory_csv (snd (sell_item whole_floats ''2024-05-01'' ''001'' [(''sold'', JInt 3)] shop_duplicates))
              = pre @ r' # post"
    using first_match_only [THEN conjunct2, THEN conjunct1, rule_format, OF s] unfolding s by simp
  show ?thesis
    by (intro conjI) (rule u, rule s, rule d, rule fd, rule fu, rule fs)
qed




text \<open>
  C5. If every id of the store parses as an integer, the next id is the maximum of the
  parsed ids (0 for an empty store) plus 1, formatted by \<open>format_03\<close>; a successful Add
  returns that id and gives it to the record it appends. For a number \<open>m \<ge> 0\<close>,
  \<open>format_03 m\<close> is the decimal text of \<open>m\<close> padded with zeros on the left to three
  characters: it parses back to \<open>m\<close>, is three characters long up to 999 and is the plain
  decimal text beyond. With the ids 001, 002 and 005 the next id is 006; on the empty
  store it is 001.
\<close>

theorem next_id_spec:
  "((\<forall>r \<in> set items. int_of_str (id_f r) \<noteq> None) \<longrightarrow>
      next_id items =
        Inr (format_03 ((if items = [] then 0
                         else Max (set (map (\<lambda>r. the (int_of_str (id_f r))) items))) + 1)))
   \<and> (add_item F item st = (Inr resp, st') \<longrightarrow>
      (\<exists>nid new. next_id (inventory_csv st) = Inr nid
          \<and> resp = [(''message'', ''Item added''), (''id'', nid)]
          \<and> inventory_csv st' = inventory_csv st @ [new] \<and> id_f new = nid))
   \<and> (0 \<le> m \<longrightarrow>
        format_03 m = replicate (3 - length (str_of_int m)) CHR ''0'' @ str_of_int m
      \<and> int_of_str (format_03 m) = Some m
      \<and> (m \<le> 999 \<longrightarrow> length (format_03 m) = 3)
      \<and> (999 < m \<longrightarrow> format_03 m = str_of_int m))
   \<and> next_id (inventory_csv shop_gap) = Inr ''006''
   \<and> next_id (inventory_csv empty_shop) = Inr ''001''"
proof (intro conjI impI)
  assume "\<forall>r \<in> set items. int_of_str (id_f r) \<noteq> None"
  then show "next_id items =
        Inr (format_03 ((if items = [] then 0
                         else Max (set (map (\<lambda>r. the (int_of_str (id_f r))) items))) + 1))"
    by (rule next_id_parsed)
next
  assume "add_item F item st = (Inr resp, st')"
  from add_item_success [OF this]
  show "\<exists>nid new. next_id (inventory_csv st) = Inr nid
          \<and> resp = [(''message'', ''Item added''), (''id'', nid)]
          \<and> inventory_csv st' = inventory_csv st @ [new] \<and> id_f new = nid"
    by blast
next
  assume "0 \<le> m"
  then show "format_03 m = replicate (3 - length (str_of_int m)) CHR ''0'' @ str_of_int m"
    by (rule format_03_nonneg(1))
next
  assume "0 \<le> m"
  then show "int_of_str (format_03 m) = Some m" by (rule format_03_nonneg(2))
next
  assume "0 \<le> m" "m \<le> 999"
  then show "length (format_03 m) = 3" by (rule format_03_nonneg(3))
next
  assume "0 \<le> m" "999 < m"
  then show "format_03 m = str_of_int m" by (rule format_03_nonneg(4))
next
  show "next_id (inventory_csv shop_gap) = Inr ''006''" by code_simp
next
  show "next_id (inventory_csv empty_shop) = Inr ''001''" by code_simp
qed

theorem next_id_spec_witness:
  "next_id (inventory_csv shop_gap) = Inr (format_03 (5 + 1))
   \<and> format_03 (5 + 1) = ''006''
   \<and> add_item whole_floats [(''name'', JStr ''nut''), (''quantity'', JInt 12), (''price'', JStr ''$4'')] shop_gap
       = (Inr [(''message'', ''Item added''), (''id'', ''006'')],
          shop_gap\<lparr>inventory_csv := inventory_csv shop_gap @
             [\<lparr>id_f = ''006'', name = ''nut'', quantity = ''12'', price = ''$4'',
               total_investment = ''48.0'', sold = ''0''\<rparr>]\<rparr>)
   \<and> (\<exists>new. inventory_csv (shop_gap\<lparr>inventory_csv := inventory_csv shop_gap @
             [\<lparr>id_f = ''006'', name = ''nut'', quantity = ''12'', price = ''$4'',
               total_investment = ''48.0'', sold = ''0''\<rparr>]\<rparr>) = inventory_csv shop_gap @ [new]
         \<and> id_f new = ''006'')
   \<and> format_03 1234 = ''1234'' \<and> format_03 42 = ''042'' \<and> int_of_str (format_03 42) = Some 42
   \<and> length (format_03 42) = 3"
proof -
  note spec = next_id_spec [where items = "inventory_csv shop_gap" and F = whole_floats
      and item = "[(''name'', JStr ''nut''), (''quantity'', JInt 12), (''price'', JStr ''$4'')]"
      and st = shop_gap and resp = "[(''message'', ''Item added''), (''id'', ''006'')]"
      and st' = "shop_gap\<lparr>inventory_csv := inventory_csv shop_gap @
             [\<lparr>id_f = ''006'', name = ''nut'', quantity = ''12'', price = ''$4'',
               total_investment = ''48.0'', sold = ''0''\<rparr>]\<rparr>"]
  have p: "\<forall>r \<in> set (inventory_csv shop_gap). int_of_str (id_f r) \<noteq> None" by code_simp
  have mx: "(if inventory_csv shop_gap = [] then 0
             else Max (set (map (\<lambda>r. the (int_of_str (id_f r))) (inventory_csv shop_gap)))) = 5"
    by code_simp
  have a: "next_id (inventory_csv shop_gap) = Inr (format_03 (5 + 1))"
    using spec [THEN conjunct1, THEN mp, OF p] unfolding mx .
  have b: "format_03 (5 + 1) = ''006''" by code_simp
  have c: "add_item whole_floats [(''name'', JStr ''nut''), (''quantity'', JInt 12), (''price'', JStr ''$4'')] shop_gap
       = (Inr [(''message'', ''Item added''), (''id'', ''006'')],
          shop_gap\<lparr>inventory_csv := inventory_csv shop_gap @
             [\<lparr>id_f = ''006'', name = ''nut'', quantity = ''12'', price = ''$4'',
               total_investment = ''48.0'', sold = ''0''\<rparr>]\<rparr>)"
    by code_simp
  have d: "\<exists>new. inventory_csv (shop_gap\<lparr>inventory_csv := inventory_csv shop_gap @
             [\<lparr>id_f = ''006'', name = ''nut'', quantity = ''12'', price = ''$4'',
               total_investment = ''48.0'', sold = ''0''\<rparr>]\<rparr>) = inventory_csv shop_gap @ [new]
         \<and> id_f new = ''006''"
    using spec [THEN conjunct2, THEN conjunct1, THEN mp, OF c] by auto
  have t: "(0::int) \<le> 1234" "(0::int) \<le> 42" by simp_all
  note big = next_id_spec [where m = 1234, THEN conjunct2, THEN conjunct2, THEN conjunct1, THEN mp, OF t(1)]
  note small = next_id_spec [where m = 42, THEN conjunct2, THEN conjunct2, THEN conjunct1, THEN mp, OF t(2)]
  have s: "str_of_int 1234 = ''1234''" by code_simp
  from big have "(999::int) < 1234 \<longrightarrow> format_03 1234 = str_of_int 1234" by blast
  then have e1: "format_03 1234 = ''1234''" unfolding s by simp
  have e2: "format_03 42 = ''042''" by code_simp
  from small have e3: "int_of_str (format_03 42) = Some 42" by blast
  from small have "(42::int) \<le> 999 \<longrightarrow> length (format_03 42) = 3" by blast
  then have e4: "length (format_03 42) = 3" by simp
  from a b c d e1 e2 e3 e4 show ?thesis by (intro conjI)
qed




text \<open>
  C8. Call a store sound when every sold field is the text of a non-negative integer.
  The empty store is sound and every sequence of Add, Update, Delete and Sell requests,
  successful or not, leads from a sound store to a sound store: so every sold counter of
  every store the operations build is a non-negative integer. The counter never
  decreases: a successful Add appends a record whose sold field is \<open>0\<close> and leaves the
  others alone, Update leaves the sold field of every record as it is, a successful Sell
  adds the sold quantity, which is positive, to the counter of one record and leaves the
  others alone, a failed Sell changes nothing, and Delete only removes records.
\<close>

theorem sold_counter_spec:
  "(sold_ok st \<longrightarrow> sold_ok (run F ops st))
   \<and> sold_ok empty_shop
   \<and> (add_item F add_req add_st = (Inr add_resp, add_st') \<longrightarrow>
        (\<exists>new. inventory_csv add_st' = inventory_csv add_st @ [new] \<and> sold new = ''0''))
   \<and> map sold (inventory_csv (snd (update_item F upd_id upd_req upd_st)))
        = map sold (inventory_csv upd_st)
   \<and> (sell_item F today sell_id sell_req sell_st = (Inr sell_resp, sell_st') \<longrightarrow>
        (\<exists>pre r r' post q old_sold. 0 < q
            \<and> inventory_csv sell_st = pre @ r # post \<and> inventory_csv sell_st' = pre @ r' # post
            \<and> int_of_str (sold r) = Some old_sold \<and> int_of_str (sold r') = Some (old_sold + q)))
   \<and> (sell_item F today sell_id sell_req sell_st = (Inl sell_err, sell_st') \<longrightarrow> sell_st' = sell_st)
   \<and> inventory_csv (snd (delete_item del_id del_st))
        = filter (\<lambda>x. id_f x \<noteq> del_id) (inventory_csv del_st)"
proof (intro conjI impI)
  assume "sold_ok st"
  then show "sold_ok (run F ops st)" by (rule sold_ok_run)
next
  show "sold_ok empty_shop" by (simp add: sold_ok_def empty_shop_def)
next
  assume "add_item F add_req add_st = (Inr add_resp, add_st')"
  from add_item_success [OF this]
  show "\<exists>new. inventory_csv add_st' = inventory_csv add_st @ [new] \<and> sold new = ''0''"
    by blast
next
  show "map sold (inventory_csv (snd (update_item F upd_id upd_req upd_st)))
        = map sold (inventory_csv upd_st)"
    by (rule update_item_sold)
next
  assume "sell_item F today sell_id sell_req sell_st = (Inr sell_resp, sell_st')"
  then show "\<exists>pre r r' post q old_sold. 0 < q
            \<and> inventory_csv sell_st = pre @ r # post \<and> inventory_csv sell_st' = pre @ r' # post
            \<and> int_of_str (sold r) = Some old_sold \<and> int_of_str (sold r') = Some (old_sold + q)"
    by (rule sell_item_sold)
next
  assume "sell_item F today sell_id sell_req sell_st = (Inl sell_err, sell_st')"
  then show "sell_st' = sell_st" by (rule sell_item_error)
next
  show "inventory_csv (snd (delete_item del_id del_st))
        = filter (\<lambda>x. id_f x \<noteq> del_id) (inventory_csv del_st)"
    by (rule delete_item_filter)
qed

theorem sold_counter_spec_witness:
  "sold_ok (run whole_floats nut_history empty_shop)
   \<and> map sold (inventory_csv (run whole_floats nut_history empty_shop)) = [''8'']
   \<and> add_item whole_floats nut_request empty_shop
       = (Inr [(''message'', ''Item added''), (''id'', ''001'')], nut_shop)
   \<and> (\<exists>new. inventory_csv nut_shop = inventory_csv empty_shop @ [new] \<and> sold new = ''0'')
   \<and> fst (sell_item whole_floats ''2024-05-01'' ''001'' [(''sold'', JInt 3)] nut_shop)
       = Inr [(''message'', ''3 units sold'')]
   \<and> (\<exists>pre r r' post q old_sold. 0 < q
         \<and> inventory_csv nut_shop = pre @ r # post
         \<and> inventory_csv (snd (sell_item whole_floats ''2024-05-01'' ''001'' [(''sold'', JInt 3)] nut_shop))
             = pre @ r' # post
         \<and> int_of_str (sold r) = Some old_sold \<and> int_of_str (sold r') = Some (old_sold + q))
   \<and> sell_item whole_floats ''2024-05-01'' ''001'' [(''sold'', JInt 13)] nut_shop
       = (Inl (InsufficientStock 12), nut_shop)"
proof -
  let ?sell = "sell_item whole_floats ''2024-05-01'' ''001'' [(''sold'', JInt 3)] nut_shop"
  note spec = sold_counter_spec [where st = empty_shop and F = whole_floats and ops = nut_history
      and add_req = nut_request and add_st = empty_shop
      and add_resp = "[(''message'', ''Item added''), (''id'', ''001'')]" and add_st' = nut_shop
      and today = "''2024-05-01''" and sell_id = "''001''" and sell_req = "[(''sold'', JInt 3)]"
      and sell_st = nut_shop and sell_resp = "[(''message'', ''3 units sold'')]"
      and sell_st' = "snd ?sell"]
  have e: "sold_ok empty_shop" using spec by blast
  from spec e have a: "sold_ok (run whole_floats nut_history empty_shop)" by blast
  have b: "map sold (inventory_csv (run whole_floats nut_history empty_shop)) = [''8'']"
    by code_simp
  have c: "add_item whole_floats nut_request empty_shop
       = (Inr [(''message'', ''Item added''), (''id'', ''001'')], nut_shop)"
    by code_simp
  from spec c have d: "\<exists>new. inventory_csv nut_shop = inventory_csv empty_shop @ [new] \<and> sold new = ''0''"
    by blast
  have f: "fst ?sell = Inr [(''message'', ''3 units sold'')]" by code_simp
  then have f': "?sell = (Inr [(''message'', ''3 units sold'')], snd ?sell)"
    by (metis prod.collapse)
  from spec f' have g: "\<exists>pre r r' post q old_sold. 0 < q
         \<and> inventory_csv nut_shop = pre @ r # post
         \<and> inventory_csv (snd ?sell) = pre @ r' # post
         \<and> int_of_str (sold r) = Some old_sold \<and> int_of_str (sold r') = Some (old_sold + q)"
    by blast
  have h: "sell_item whole_floats ''2024-05-01'' ''001'' [(''sold'', JInt 13)] nut_shop
       = (Inl (InsufficientStock 12), nut_shop)"
    by code_simp
  from a b c d f g h show ?thesis by (intro conjI)
qed

end
